theory Spec2Isabelle
  imports Complex_Main
begin

section \<open>Strings of the program\<close>

text \<open>
  The parser works on Python \<open>str\<close> values. A string is modelled as a list of
  characters whose code points lie below 256 (Latin-1); \<open>None\<close> is the absent
  string. On that range \<open>str.lower\<close> moves \<open>A..Z\<close> and the accented capitals
  \<open>0xC0..0xDE\<close> (without the multiplication sign \<open>0xD7\<close>) up by 32, and
  \<open>str.isspace\<close>, which is also what \<open>\s\<close> matches, holds of twelve characters.
\<close>

definition py_lower_char :: "char \<Rightarrow> char" where
  "py_lower_char c =
     (let n = (of_char c :: nat)
      in if (65 \<le> n \<and> n \<le> 90) \<or> (192 \<le> n \<and> n \<le> 222 \<and> n \<noteq> 215)
         then char_of (n + 32) else c)"

definition py_lower :: "string \<Rightarrow> string" where
  "py_lower s = map py_lower_char s"

text \<open>
  \<open>str.upper\<close> is only ever applied to text that a pattern captured from the letters
  \<open>a..z\<close>; on the other characters it is modelled as the identity.
\<close>

definition py_upper_char :: "char \<Rightarrow> char" where
  "py_upper_char c =
     (let n = (of_char c :: nat)
      in if 97 \<le> n \<and> n \<le> 122 then char_of (n - 32) else c)"

definition py_upper :: "string \<Rightarrow> string" where
  "py_upper s = map py_upper_char s"

definition py_isspace :: "char \<Rightarrow> bool" where
  "py_isspace c \<longleftrightarrow>
     c \<in> set [CHR 0x09, CHR 0x0A, CHR 0x0B, CHR 0x0C, CHR 0x0D, CHR 0x1C,
               CHR 0x1D, CHR 0x1E, CHR 0x1F, CHR 0x20, CHR 0x85, CHR 0xA0]"

definition py_isdigit :: "char \<Rightarrow> bool" where
  "py_isdigit c \<longleftrightarrow> c \<in> set ''0123456789''"

definition py_strip :: "string \<Rightarrow> string" where
  "py_strip s = rev (dropWhile py_isspace (rev (dropWhile py_isspace s)))"

text \<open>Truth value of an optional string: \<open>None\<close> and \<open>""\<close> are false.\<close>

fun truthy :: "string option \<Rightarrow> bool" where
  "truthy None = False"
| "truthy (Some s) = (s \<noteq> [])"

text \<open>\<open>str(g)\<close> of an optional string.\<close>

fun py_str :: "string option \<Rightarrow> string" where
  "py_str None = ''None''"
| "py_str (Some s) = s"

text \<open>The substring test \<open>sub in text\<close>.\<close>

fun starts_with :: "string \<Rightarrow> string \<Rightarrow> bool" where
  "starts_with [] s = True"
| "starts_with (c # cs) [] = False"
| "starts_with (c # cs) (d # ds) = (c = d \<and> starts_with cs ds)"

fun py_in :: "string \<Rightarrow> string \<Rightarrow> bool" where
  "py_in sub [] = (sub = [])"
| "py_in sub (d # ds) = (starts_with sub (d # ds) \<or> py_in sub ds)"

text \<open>\<open>next((g for g in groups if P(g)), default)\<close>.\<close>

fun py_next :: "('a \<Rightarrow> bool) \<Rightarrow> 'a list \<Rightarrow> 'a \<Rightarrow> 'a" where
  "py_next P [] d = d"
| "py_next P (x # xs) d = (if P x then x else py_next P xs d)"

section \<open>Regular expressions\<close>

text \<open>
  The fragment of Python's \<open>re\<close> that the patterns of the program use: literal
  characters, the classes \<open>\d\<close>, \<open>\s\<close> and \<open>[...]\<close>, sequence, ordered
  alternation, the greedy option \<open>r?\<close>, greedy bounded or unbounded repetition of a
  single class (\<open>\s*\<close>, \<open>\d+\<close>, \<open>\d{m,n}\<close>), numbered capture groups and the
  anchor \<open>$\<close>. Groups are numbered from 0 here, so group \<open>i\<close> of Python is index
  \<open>i - 1\<close>.
\<close>

datatype cclass = Digit | Space | OneOf string

datatype regex =
    Chr char
  | Cls cclass
  | Seq regex regex
  | Alt regex regex
  | Opt regex
  | Rep cclass nat "nat option"
  | Grp nat regex
  | Eps
  | Dollar

type_synonym groups = "string option list"

text \<open>With \<open>re.IGNORECASE\<close> two characters agree when their lower-case forms do.\<close>

definition chr_eq :: "bool \<Rightarrow> char \<Rightarrow> char \<Rightarrow> bool" where
  "chr_eq ic c d = (if ic then py_lower_char c = py_lower_char d else c = d)"

fun in_class :: "bool \<Rightarrow> cclass \<Rightarrow> char \<Rightarrow> bool" where
  "in_class ic Digit d = py_isdigit d"
| "in_class ic Space d = py_isspace d"
| "in_class ic (OneOf cs) d = (\<exists>c \<in> set cs. chr_eq ic c d)"

text \<open>Length of the longest prefix of class characters, at most \<open>hi\<close> when given.\<close>

fun run :: "bool \<Rightarrow> cclass \<Rightarrow> nat option \<Rightarrow> string \<Rightarrow> nat" where
  "run ic k hi [] = 0"
| "run ic k hi (d # ds) =
     (if hi = Some 0 \<or> \<not> in_class ic k d then 0
      else Suc (run ic k (map_option (\<lambda>h. h - 1) hi) ds))"

text \<open>
  The backtracking matcher, as the list of all ways the expression matches a prefix of
  the text, in the order in which the backtracking engine tries them: each entry is the
  remaining text and the groups captured so far. The first entry is what
  \<open>re\<close> reports.
\<close>

fun rmatch :: "bool \<Rightarrow> regex \<Rightarrow> string \<Rightarrow> groups \<Rightarrow> (string \<times> groups) list" where
  "rmatch ic (Chr c) s g =
     (case s of [] \<Rightarrow> [] | d # t \<Rightarrow> if chr_eq ic c d then [(t, g)] else [])"
| "rmatch ic (Cls k) s g =
     (case s of [] \<Rightarrow> [] | d # t \<Rightarrow> if in_class ic k d then [(t, g)] else [])"
| "rmatch ic (Seq a b) s g =
     concat (map (\<lambda>(t, h). rmatch ic b t h) (rmatch ic a s g))"
| "rmatch ic (Alt a b) s g = rmatch ic a s g @ rmatch ic b s g"
| "rmatch ic (Opt a) s g = rmatch ic a s g @ [(s, g)]"
| "rmatch ic (Rep k lo hi) s g =
     map (\<lambda>j. (drop j s, g)) (rev [lo ..< Suc (run ic k hi s)])"
| "rmatch ic (Grp i a) s g =
     map (\<lambda>(t, h). (t, h[i := Some (take (length s - length t) s)])) (rmatch ic a s g)"
| "rmatch ic Eps s g = [(s, g)]"
| "rmatch ic Dollar s g = (if s = [] \<or> s = [CHR 0x0A] then [(s, g)] else [])"

text \<open>\<open>re.match\<close>: the expression is tried at the start of the text only.\<close>

definition re_match :: "bool \<Rightarrow> regex \<Rightarrow> nat \<Rightarrow> string \<Rightarrow> groups option" where
  "re_match ic r n s =
     (case rmatch ic r s (replicate n None) of [] \<Rightarrow> None | (t, g) # _ \<Rightarrow> Some g)"

text \<open>\<open>re.search\<close>: the leftmost position at which the expression matches.\<close>

fun re_search :: "bool \<Rightarrow> regex \<Rightarrow> nat \<Rightarrow> string \<Rightarrow> groups option" where
  "re_search ic r n [] = re_match ic r n []"
| "re_search ic r n (d # ds) =
     (case re_match ic r n (d # ds) of Some g \<Rightarrow> Some g | None \<Rightarrow> re_search ic r n ds)"

text \<open>Building blocks for writing the patterns down.\<close>

fun lit :: "string \<Rightarrow> regex" where
  "lit [] = Eps"
| "lit [c] = Chr c"
| "lit (c # cs) = Seq (Chr c) (lit cs)"

fun seqs :: "regex list \<Rightarrow> regex" where
  "seqs [] = Eps"
| "seqs [r] = r"
| "seqs (r # rs) = Seq r (seqs rs)"

fun alts :: "regex list \<Rightarrow> regex" where
  "alts [] = Eps"
| "alts [r] = r"
| "alts (r # rs) = Alt r (alts rs)"

abbreviation ws :: regex where
  "ws \<equiv> Rep Space 0 None"

abbreviation digits :: "nat \<Rightarrow> nat \<Rightarrow> regex" where
  "digits lo hi \<equiv> Rep Digit lo (Some hi)"

text \<open>
  The loop \<open>for pattern in patterns: match = re.search(pattern, text, re.IGNORECASE);
  if match: ...; return\<close>: the groups of the first pattern of the list that matches.
  Each pattern comes with its number of groups.
\<close>

fun first_match :: "(regex \<times> nat) list \<Rightarrow> string \<Rightarrow> groups option" where
  "first_match [] s = None"
| "first_match ((r, n) # ps) s =
     (case re_search True r n s of Some g \<Rightarrow> Some g | None \<Rightarrow> first_match ps s)"

section \<open>Component records\<close>

record GPUInfo =
  brand :: "string option"
  series :: "string option"
  model :: "string option"
  variant :: "string option"
  source :: "string option"
  confidence :: "string option"

record CPUInfo =
  brand :: "string option"
  series :: "string option"
  generation :: "string option"
  model :: "string option"
  variant :: "string option"
  source :: "string option"
  confidence :: "string option"

record ProcessingStats =
  total_documents :: int
  successful_processing :: int
  failed_processing :: int
  inserted_documents :: int
  gpu_conflicts :: int
  cpu_conflicts :: int

text \<open>The records \<open>GPUInfo()\<close> and \<open>CPUInfo()\<close> with every field at its default.\<close>

definition GPUInfo_default :: GPUInfo where
  "GPUInfo_default =
     \<lparr> GPUInfo.brand = None, series = None, model = None, variant = None,
       source = None, confidence = None \<rparr>"

definition CPUInfo_default :: CPUInfo where
  "CPUInfo_default =
     \<lparr> CPUInfo.brand = None, series = None, generation = None, model = None,
       variant = None, source = None, confidence = None \<rparr>"

text \<open>\<open>ProcessingStats()\<close>: every counter starts at 0.\<close>

definition ProcessingStats_default :: ProcessingStats where
  "ProcessingStats_default =
     \<lparr> total_documents = 0, successful_processing = 0, failed_processing = 0,
       inserted_documents = 0, gpu_conflicts = 0, cpu_conflicts = 0 \<rparr>"

section \<open>The pattern tables of \<open>SpecificationParser\<close>\<close>

definition nvidia_patterns :: "(regex \<times> nat) list" where
  "nvidia_patterns =
     [(seqs [Grp 0 (alts [lit ''nvidia'', lit ''geforce'']), ws,
             Grp 1 (alts [lit ''rtx'', lit ''gtx'']), ws,
             Grp 2 (alts [lit ''40'', lit ''30'', lit ''20'', lit ''16'', lit ''10'']),
             Grp 3 (digits 2 2), ws,
             Opt (Grp 4 (alts [lit ''ti'', lit ''super'']))], 5),
      (seqs [Grp 0 (alts [lit ''nvidia'', lit ''geforce'', lit ''rtx'', lit ''gtx'']), ws,
             Opt (Grp 1 (alts [lit ''rtx'', lit ''gtx''])), ws,
             Grp 2 (alts [lit ''40'', lit ''30'', lit ''20'', lit ''16'', lit ''10'']),
             Grp 3 (digits 2 2), ws,
             Opt (Grp 4 (alts [lit ''ti'', lit ''super'']))], 5)]"

definition amd_gpu_patterns :: "(regex \<times> nat) list" where
  "amd_gpu_patterns =
     [(seqs [lit ''amd'', ws, Opt (Grp 0 (lit ''radeon'')), ws, Grp 1 (lit ''rx''), ws,
             Grp 2 (alts [lit ''7'', lit ''6'', lit ''5'', lit ''4'']),
             Grp 3 (digits 3 3), ws, Opt (Grp 4 (lit ''xt''))], 5),
      (seqs [Opt (Grp 0 (alts [lit ''radeon'', lit ''amd''])), ws,
             Opt (Grp 1 (lit ''rx'')), ws,
             Grp 2 (alts [lit ''7'', lit ''6'', lit ''5'', lit ''4'']),
             Grp 3 (digits 3 3), ws, Opt (Grp 4 (lit ''xt''))], 5)]"

definition intel_gpu_patterns :: "(regex \<times> nat) list" where
  "intel_gpu_patterns =
     [(seqs [Opt (Grp 0 (lit ''intel'')), ws, lit ''arc'', ws, Opt (Cls (OneOf ''ab'')),
             Grp 1 (alts [lit ''3'', lit ''5'', lit ''7'']), Grp 2 (digits 2 2)], 3),
      (seqs [Opt (Grp 0 (lit ''intel'')), ws, lit ''arc'', ws,
             Opt (Grp 1 (alts [lit ''a'', lit ''b''])), Grp 2 (digits 3 3)], 3),
      (seqs [Opt (Grp 0 (lit ''intel'')), ws, lit ''iris'', ws,
             Opt (Grp 1 (alts [seqs [lit ''xe'', Opt (Grp 2 (seqs [ws, lit ''max'']))],
                               lit ''pro'', lit ''plus'']))], 3),
      (seqs [Opt (Grp 0 (lit ''intel'')), ws, lit ''iris'', ws, lit ''xe'', ws,
             lit ''graphics''], 1),
      (seqs [Opt (Grp 0 (lit ''intel'')), ws, Grp 1 (alts [lit ''uhd'', lit ''hd'']), ws,
             lit ''graphics'', ws, Opt (Grp 2 (digits 3 4))], 3)]"

definition intel_cpu_patterns :: "(regex \<times> nat) list" where
  "intel_cpu_patterns =
     [(seqs [Opt (Grp 0 (lit ''intel'')), ws, Opt (Grp 1 (lit ''core'')), ws,
             Grp 2 (alts [lit ''ultra'', seqs [lit ''i'', Cls (OneOf ''3579'')]]), ws,
             Opt (lit ''-''), ws, Grp 3 (digits 1 2), Grp 4 (digits 3 3),
             Opt (Cls (OneOf ''HKF'')), Opt (Cls (OneOf ''HKF'')), ws,
             Opt (Grp 5 (alts [lit ''h'', lit ''u'', lit ''hx'', lit ''k'']))], 6),
      (seqs [Opt (Grp 0 (lit ''intel'')), ws, Opt (Grp 1 (lit ''core'')), ws,
             Grp 2 (seqs [lit ''i'', Cls (OneOf ''3579'')]), ws,
             Opt (lit ''-''), ws, Grp 3 (digits 1 2), lit ''th'', ws, lit ''gen''], 4)]"

definition amd_cpu_patterns :: "(regex \<times> nat) list" where
  "amd_cpu_patterns =
     [(seqs [Opt (Grp 0 (lit ''amd'')), ws, Grp 1 (lit ''ryzen''), ws,
             Grp 2 (Cls (OneOf ''3579'')), ws, Grp 3 (digits 4 4),
             Opt (Cls (OneOf ''HUX'')), ws,
             Opt (Grp 4 (alts [lit ''h'', lit ''u'', lit ''hx'']))], 5),
      (seqs [Opt (Grp 0 (lit ''amd'')), ws, Grp 1 (lit ''ryzen''), ws,
             Grp 2 (Cls (OneOf ''3579'')), ws, Opt (lit ''-''), ws, Grp 3 (digits 4 5),
             Opt (Cls (OneOf ''HUX'')), ws,
             Opt (Grp 4 (alts [lit ''h'', lit ''u'', lit ''hx'']))], 5)]"

text \<open>The tests \<open>re.match(pattern, str(g))\<close> that pick a group out of \<open>groups\<close>.\<close>

definition str_matches :: "regex \<Rightarrow> string option \<Rightarrow> bool" where
  "str_matches r g \<longleftrightarrow> re_match False r 0 (py_str g) \<noteq> None"

section \<open>\<open>parse_gpu_from_text\<close>\<close>

definition nvidia_gpu :: "GPUInfo \<Rightarrow> string \<Rightarrow> groups \<Rightarrow> GPUInfo" where
  "nvidia_gpu gpu_info0 text groups =
     (let gpu_info = gpu_info0\<lparr>GPUInfo.brand := Some ''NVIDIA''\<rparr>;
          gpu_info = (if py_in ''rtx'' text then gpu_info\<lparr>GPUInfo.series := Some ''RTX''\<rparr>
                      else if py_in ''gtx'' text then gpu_info\<lparr>GPUInfo.series := Some ''GTX''\<rparr>
                      else gpu_info);
          series_num = py_next (\<lambda>g. g \<in> set [Some ''40'', Some ''30'', Some ''20'',
                                                 Some ''16'', Some ''10'']) groups (Some []);
          model_num = py_next (str_matches (Seq (digits 2 2) Dollar)) groups (Some []);
          gpu_info = (if truthy series_num \<and> truthy model_num
                      then gpu_info\<lparr>GPUInfo.model := Some (py_str series_num @ py_str model_num)\<rparr>
                      else gpu_info)
      in if py_in ''ti'' text then gpu_info\<lparr>GPUInfo.variant := Some ''Ti''\<rparr>
         else if py_in ''super'' text then gpu_info\<lparr>GPUInfo.variant := Some ''SUPER''\<rparr>
         else gpu_info)"

definition intel_gpu :: "GPUInfo \<Rightarrow> string \<Rightarrow> GPUInfo" where
  "intel_gpu gpu_info0 text =
     (let gpu_info = gpu_info0\<lparr>GPUInfo.brand := Some ''Intel''\<rparr>
      in if py_in ''arc'' text then
           (let gpu_info = gpu_info\<lparr>GPUInfo.series := Some ''Arc''\<rparr>
            in case re_search False
                      (Seq (Opt (Grp 0 (alts [lit ''a'', lit ''b'']))) (Grp 1 (digits 3 3)))
                      2 text of
                 Some [prefix, number] \<Rightarrow>
                   if truthy prefix
                   then gpu_info\<lparr>GPUInfo.model := Some (py_upper (py_str prefix) @ py_str number)\<rparr>
                   else gpu_info\<lparr>GPUInfo.model := number\<rparr>
               | _ \<Rightarrow> gpu_info)
         else if py_in ''iris'' text then
           (let gpu_info = gpu_info\<lparr>GPUInfo.series := Some ''Iris''\<rparr>
            in if py_in ''xe max'' text then gpu_info\<lparr>GPUInfo.variant := Some ''Xe MAX''\<rparr>
               else if py_in ''xe'' text then gpu_info\<lparr>GPUInfo.variant := Some ''Xe''\<rparr>
               else if py_in ''pro'' text then gpu_info\<lparr>GPUInfo.variant := Some ''Pro''\<rparr>
               else if py_in ''plus'' text then gpu_info\<lparr>GPUInfo.variant := Some ''Plus''\<rparr>
               else gpu_info)
         else if py_in ''uhd'' text \<or> py_in ''hd'' text then
           (let gpu_info = gpu_info\<lparr>GPUInfo.series :=
                              Some (if py_in ''uhd'' text then ''UHD'' else ''HD'')\<rparr>
            in case re_search False (Grp 0 (digits 3 4)) 1 text of
                 Some [number] \<Rightarrow> gpu_info\<lparr>GPUInfo.model := number\<rparr>
               | _ \<Rightarrow> gpu_info)
         else gpu_info)"

definition amd_gpu :: "GPUInfo \<Rightarrow> string \<Rightarrow> groups \<Rightarrow> GPUInfo" where
  "amd_gpu gpu_info0 text groups =
     (let gpu_info = gpu_info0\<lparr>GPUInfo.brand := Some ''AMD'', GPUInfo.series := Some ''RX''\<rparr>;
          series_num = py_next (\<lambda>g. g \<in> set [Some ''7'', Some ''6'', Some ''5'', Some ''4''])
                         groups (Some []);
          model_num = py_next (str_matches (Seq (digits 3 3) Dollar)) groups (Some []);
          gpu_info = (if truthy series_num \<and> truthy model_num
                      then gpu_info\<lparr>GPUInfo.model := Some (py_str series_num @ py_str model_num)\<rparr>
                      else gpu_info)
      in if py_in ''xt'' text then gpu_info\<lparr>GPUInfo.variant := Some ''XT''\<rparr> else gpu_info)"

definition parse_gpu_from_text :: "string option \<Rightarrow> bool \<Rightarrow> GPUInfo" where
  "parse_gpu_from_text text0 is_technical_detail =
     (if \<not> truthy text0 then GPUInfo_default
      else
        let text = py_strip (py_lower (py_str text0));
            gpu_info = GPUInfo_default
              \<lparr> GPUInfo.source := Some (if is_technical_detail then ''technical_detail'' else ''title''),
                GPUInfo.confidence := Some (if is_technical_detail then ''high'' else ''low'') \<rparr>
        in case first_match nvidia_patterns text of
             Some groups \<Rightarrow> nvidia_gpu gpu_info text groups
           | None \<Rightarrow>
              (case first_match intel_gpu_patterns text of
                 Some groups \<Rightarrow> intel_gpu gpu_info text
               | None \<Rightarrow>
                  (case first_match amd_gpu_patterns text of
                     Some groups \<Rightarrow> amd_gpu gpu_info text groups
                   | None \<Rightarrow> gpu_info)))"

section \<open>\<open>parse_cpu_from_text\<close>\<close>

definition intel_cpu :: "CPUInfo \<Rightarrow> groups \<Rightarrow> CPUInfo" where
  "intel_cpu cpu_info0 groups =
     (let cpu_info = cpu_info0\<lparr>CPUInfo.brand := Some ''Intel''\<rparr>;
          series = py_next (\<lambda>g. g \<in> set [Some ''ultra'', Some ''i3'', Some ''i5'',
                                             Some ''i7'', Some ''i9'']) groups (Some []);
          cpu_info = cpu_info\<lparr>CPUInfo.series :=
                        (if truthy series then Some (py_upper (py_str series)) else None)\<rparr>;
          gen = py_next (str_matches (digits 1 2)) groups (Some []);
          cpu_info = (if truthy gen
                      then cpu_info\<lparr>CPUInfo.generation := Some (py_str gen @ ''th Gen'')\<rparr>
                      else cpu_info);
          model = py_next (str_matches (digits 3 4)) groups (Some []);
          cpu_info = (if truthy model then cpu_info\<lparr>CPUInfo.model := model\<rparr> else cpu_info);
          variant = py_next (\<lambda>g. g \<in> set [Some ''h'', Some ''u'', Some ''hx'', Some ''k''])
                      groups None
      in if truthy variant then cpu_info\<lparr>CPUInfo.variant := Some (py_upper (py_str variant))\<rparr>
         else cpu_info)"

definition amd_cpu :: "CPUInfo \<Rightarrow> string \<Rightarrow> groups \<Rightarrow> CPUInfo" where
  "amd_cpu cpu_info0 text groups =
     (let cpu_info = cpu_info0\<lparr>CPUInfo.brand := Some ''AMD''\<rparr>;
          cpu_info = (if py_in ''ryzen'' text
                      then
                        (let ryzen_num = py_next (\<lambda>g. g \<in> set [Some ''3'', Some ''5'',
                                                    Some ''7'', Some ''9'']) groups (Some [])
                         in cpu_info\<lparr>CPUInfo.series := Some (''Ryzen '' @ py_str ryzen_num)\<rparr>)
                      else cpu_info);
          model = py_next (str_matches (digits 4 5)) groups (Some []);
          cpu_info = (case model of
                        Some (gen_num # rest) \<Rightarrow>
                          cpu_info\<lparr>CPUInfo.model := model,
                                   CPUInfo.generation := Some (''Gen '' @ [gen_num])\<rparr>
                      | _ \<Rightarrow> cpu_info);
          variant = py_next (\<lambda>g. g \<in> set [Some ''h'', Some ''u'', Some ''hx'']) groups None
      in if truthy variant then cpu_info\<lparr>CPUInfo.variant := Some (py_upper (py_str variant))\<rparr>
         else cpu_info)"

definition parse_cpu_from_text :: "string option \<Rightarrow> bool \<Rightarrow> CPUInfo" where
  "parse_cpu_from_text text0 is_technical_detail =
     (if \<not> truthy text0 then CPUInfo_default
      else
        let text = py_strip (py_lower (py_str text0));
            cpu_info = CPUInfo_default
              \<lparr> CPUInfo.source := Some (if is_technical_detail then ''technical_detail'' else ''title''),
                CPUInfo.confidence := Some (if is_technical_detail then ''high'' else ''low'') \<rparr>
        in case first_match intel_cpu_patterns text of
             Some groups \<Rightarrow> intel_cpu cpu_info groups
           | None \<Rightarrow>
              (case first_match amd_cpu_patterns text of
                 Some groups \<Rightarrow> amd_cpu cpu_info text groups
               | None \<Rightarrow> cpu_info))"

section \<open>Exceptions and numbers\<close>

text \<open>
  An exception is a value: a computation that may raise returns \<open>Inl\<close> of the
  exception or \<open>Inr\<close> of its result.
\<close>

datatype py_error = ValueError | TypeError | IndexError

definition py_bind :: "py_error + 'a \<Rightarrow> ('a \<Rightarrow> py_error + 'b) \<Rightarrow> py_error + 'b" where
  "py_bind m f = (case m of Inl e \<Rightarrow> Inl e | Inr v \<Rightarrow> f v)"

text \<open>
  \<open>try: body; except Exception as e: logger.error(...)\<close> followed by
  \<open>return None\<close>: whatever the body raises is logged and the function returns
  \<open>None\<close>; a value returned inside the body is the result.
\<close>

definition try_except :: "py_error + 'a option \<Rightarrow> py_error + 'a option" where
  "try_except body = (case body of Inl e \<Rightarrow> Inr None | Inr v \<Rightarrow> Inr v)"

text \<open>\<open>match.group(i)\<close> for \<open>i \<ge> 1\<close>.\<close>

definition match_group :: "groups \<Rightarrow> nat \<Rightarrow> py_error + string option" where
  "match_group gs i =
     (if 1 \<le> i \<and> i \<le> length gs then Inr (gs ! (i - 1)) else Inl IndexError)"

definition digit_val :: "char \<Rightarrow> nat" where
  "digit_val c = of_char c - 48"

definition nat_of_digits :: "string \<Rightarrow> nat" where
  "nat_of_digits ds = foldl (\<lambda>n c. 10 * n + digit_val c) 0 ds"

text \<open>
  \<open>float(x)\<close>. A float is modelled by the rational number that the decimal literal
  denotes; rounding to binary64 is not modelled. The grammar is the one the patterns
  capture, digits optionally followed by a point and digits: Python accepts more
  (signs, exponents, surrounding blanks), which is reported as \<open>ValueError\<close> here
  and which no pattern of the program can capture. \<open>float(None)\<close> is a
  \<open>TypeError\<close>.
\<close>

definition py_float :: "string option \<Rightarrow> py_error + rat" where
  "py_float x =
     (case x of
        None \<Rightarrow> Inl TypeError
      | Some s \<Rightarrow>
         (let ip = takeWhile py_isdigit s; rest = dropWhile py_isdigit s
          in if ip = [] then Inl ValueError
             else case rest of
                    [] \<Rightarrow> Inr (of_nat (nat_of_digits ip))
                  | c # fp \<Rightarrow>
                     if c = CHR ''.'' \<and> fp \<noteq> [] \<and> list_all py_isdigit fp
                     then Inr (of_nat (nat_of_digits ip)
                               + of_nat (nat_of_digits fp) / 10 ^ length fp)
                     else Inl ValueError))"

text \<open>
  \<open>int(x)\<close> on a string of digits; Python's integers are unbounded. (The limit on
  the number of digits that recent interpreters put on the conversion is not modelled:
  exceeding it is a \<open>ValueError\<close>, which the caller catches.)
\<close>

definition py_int :: "string option \<Rightarrow> py_error + int" where
  "py_int x =
     (case x of
        None \<Rightarrow> Inl TypeError
      | Some s \<Rightarrow>
         if s \<noteq> [] \<and> list_all py_isdigit s then Inr (int (nat_of_digits s))
         else Inl ValueError)"

section \<open>The unit normalizers of \<open>AmazonParser\<close>\<close>

text \<open>The common prefix \<open>\d+(?:\.\d+)?\<close> of the patterns.\<close>

abbreviation decimal :: regex where
  "decimal \<equiv> Seq (Rep Digit 1 None) (Opt (Seq (Chr CHR ''.'') (Rep Digit 1 None)))"

definition ram_size_pattern :: regex where
  "ram_size_pattern =
     seqs [Grp 0 decimal, ws, Opt (Grp 1 (alts [lit ''GB'', lit ''MB'', lit ''TB'']))]"

definition display_size_pattern :: regex where
  "display_size_pattern =
     seqs [Grp 0 decimal, ws, Opt (alts [lit ''inches'', Chr (CHR 0x22)])]"

definition battery_life_pattern :: regex where
  "battery_life_pattern =
     seqs [Grp 0 decimal, ws,
           Opt (alts [lit ''hours'', seqs [lit ''hr'', Opt (lit ''s'')]])]"

definition weight_pattern :: regex where
  "weight_pattern =
     seqs [Grp 0 decimal, ws,
           Opt (Grp 1 (alts [lit ''kg'', lit ''g'', lit ''kilograms'', lit ''grams'']))]"

definition port_count_pattern :: regex where
  "port_count_pattern = Grp 0 (Rep Digit 1 None)"

definition normalize_ram_size :: "string option \<Rightarrow> py_error + rat option" where
  "normalize_ram_size ram_size =
     (if \<not> truthy ram_size then Inr None
      else try_except
        (case re_search True ram_size_pattern 2 (py_str ram_size) of
           None \<Rightarrow> Inr None
         | Some [size0, unit0] \<Rightarrow>
             py_bind (py_float size0) (\<lambda>size.
               if truthy unit0 then
                 (let unit = py_upper (py_str unit0)
                  in if unit = ''MB'' then Inr (Some (size / 1024))
                     else if unit = ''TB'' then Inr (Some (size * 1024))
                     else Inr (Some size))
               else Inr (Some size))
         | Some _ \<Rightarrow> Inl ValueError))"

definition normalize_display_size :: "string option \<Rightarrow> py_error + rat option" where
  "normalize_display_size display_size =
     (if \<not> truthy display_size then Inr None
      else try_except
        (case re_search True display_size_pattern 1 (py_str display_size) of
           None \<Rightarrow> Inr None
         | Some gs \<Rightarrow>
             py_bind (match_group gs 1) (\<lambda>g. py_bind (py_float g) (\<lambda>v. Inr (Some v)))))"

definition normalize_battery_life :: "string option \<Rightarrow> py_error + rat option" where
  "normalize_battery_life battery_life =
     (if \<not> truthy battery_life then Inr None
      else try_except
        (case re_search True battery_life_pattern 1 (py_str battery_life) of
           None \<Rightarrow> Inr None
         | Some gs \<Rightarrow>
             py_bind (match_group gs 1) (\<lambda>g. py_bind (py_float g) (\<lambda>v. Inr (Some v)))))"

definition normalize_weight :: "string option \<Rightarrow> py_error + rat option" where
  "normalize_weight weight =
     (if \<not> truthy weight then Inr None
      else try_except
        (case re_search True weight_pattern 2 (py_str weight) of
           None \<Rightarrow> Inr None
         | Some [value0, unit] \<Rightarrow>
             py_bind (py_float value0) (\<lambda>value.
               if truthy unit \<and> py_lower (py_str unit) \<in> set [''g'', ''grams'']
               then Inr (Some (value / 1000))
               else Inr (Some value))
         | Some _ \<Rightarrow> Inl ValueError))"

definition normalize_port_count :: "string option \<Rightarrow> py_error + int option" where
  "normalize_port_count port_count =
     (if \<not> truthy port_count then Inr None
      else try_except
        (case re_search False port_count_pattern 1 (py_str port_count) of
           None \<Rightarrow> Inr None
         | Some gs \<Rightarrow>
             py_bind (match_group gs 1) (\<lambda>g. py_bind (py_int g) (\<lambda>v. Inr (Some v)))))"

section \<open>\<open>standardize_specs\<close>\<close>

text \<open>
  The values of the dictionary that \<open>standardize_specs\<close> builds. A dictionary is a
  list of key and value pairs in insertion order; its keys are distinct.
\<close>

datatype pyval =
    PNone
  | PStr string
  | PFloat rat
  | PInt int
  | PDict "(string \<times> pyval) list"
  | PList "pyval list"

type_synonym pydict = "(string \<times> pyval) list"

definition opt_str :: "string option \<Rightarrow> pyval" where
  "opt_str x = (case x of None \<Rightarrow> PNone | Some s \<Rightarrow> PStr s)"

definition opt_float :: "rat option \<Rightarrow> pyval" where
  "opt_float x = (case x of None \<Rightarrow> PNone | Some v \<Rightarrow> PFloat v)"

definition opt_int :: "int option \<Rightarrow> pyval" where
  "opt_int x = (case x of None \<Rightarrow> PNone | Some v \<Rightarrow> PInt v)"

text \<open>\<open>dataclasses.asdict\<close> on the two component records.\<close>

definition asdict_gpu :: "GPUInfo \<Rightarrow> pyval" where
  "asdict_gpu g =
     PDict [(''brand'', opt_str (GPUInfo.brand g)), (''series'', opt_str (GPUInfo.series g)),
            (''model'', opt_str (GPUInfo.model g)), (''variant'', opt_str (GPUInfo.variant g)),
            (''source'', opt_str (GPUInfo.source g)),
            (''confidence'', opt_str (GPUInfo.confidence g))]"

definition asdict_cpu :: "CPUInfo \<Rightarrow> pyval" where
  "asdict_cpu c =
     PDict [(''brand'', opt_str (CPUInfo.brand c)), (''series'', opt_str (CPUInfo.series c)),
            (''generation'', opt_str (CPUInfo.generation c)),
            (''model'', opt_str (CPUInfo.model c)), (''variant'', opt_str (CPUInfo.variant c)),
            (''source'', opt_str (CPUInfo.source c)),
            (''confidence'', opt_str (CPUInfo.confidence c))]"

text \<open>The conflict record appended for a component.\<close>

definition conflict_record :: "string \<Rightarrow> string option \<Rightarrow> string option \<Rightarrow> pyval" where
  "conflict_record component tech_brand title_brand =
     PDict [(''component'', PStr component), (''field'', PStr ''brand''),
            (''tech_value'', opt_str tech_brand), (''title_value'', opt_str title_brand),
            (''resolution'', PStr (''Used technical detail value: '' @ py_str tech_brand))]"

text \<open>The test \<open>a.brand and b.brand and a.brand != b.brand\<close>.\<close>

definition brand_conflict :: "string option \<Rightarrow> string option \<Rightarrow> bool" where
  "brand_conflict tech_brand title_brand \<longleftrightarrow>
     truthy tech_brand \<and> truthy title_brand \<and> tech_brand \<noteq> title_brand"

text \<open>\<open>tech_details.get(key, "")\<close>.\<close>

definition get_or_empty :: "(string \<rightharpoonup> string) \<Rightarrow> string \<Rightarrow> string option" where
  "get_or_empty tech_details key =
     (case tech_details key of None \<Rightarrow> Some [] | Some v \<Rightarrow> Some v)"

text \<open>
  The four classifications and the conflicts of one document, in the order of the code:
  the GPU conflict, if any, is appended before the CPU conflict.
\<close>

definition tech_gpu_of :: "(string \<rightharpoonup> string) \<Rightarrow> GPUInfo" where
  "tech_gpu_of tech_details =
     parse_gpu_from_text (get_or_empty tech_details ''Graphics Card Description'') True"

definition tech_cpu_of :: "(string \<rightharpoonup> string) \<Rightarrow> CPUInfo" where
  "tech_cpu_of tech_details =
     parse_cpu_from_text (get_or_empty tech_details ''Processor Type'') True"

definition standardize_specs ::
  "(string \<rightharpoonup> string) \<Rightarrow> string option \<Rightarrow> ProcessingStats
     \<Rightarrow> (py_error + pydict) \<times> ProcessingStats" where
  "standardize_specs tech_details title stats0 =
     (let tech_gpu = tech_gpu_of tech_details;
          title_gpu = parse_gpu_from_text title False;
          tech_cpu = tech_cpu_of tech_details;
          title_cpu = parse_cpu_from_text title False;
          conflicts = [];
          final_gpu = asdict_gpu (if truthy (GPUInfo.brand tech_gpu) then tech_gpu else title_gpu);
          gpu_hit = brand_conflict (GPUInfo.brand tech_gpu) (GPUInfo.brand title_gpu);
          conflicts = (if gpu_hit
                       then conflicts @ [conflict_record ''GPU'' (GPUInfo.brand tech_gpu)
                                           (GPUInfo.brand title_gpu)]
                       else conflicts);
          stats = (if gpu_hit then stats0\<lparr>gpu_conflicts := gpu_conflicts stats0 + 1\<rparr>
                   else stats0);
          final_cpu = asdict_cpu (if truthy (CPUInfo.brand tech_cpu) then tech_cpu else title_cpu);
          cpu_hit = brand_conflict (CPUInfo.brand tech_cpu) (CPUInfo.brand title_cpu);
          conflicts = (if cpu_hit
                       then conflicts @ [conflict_record ''CPU'' (CPUInfo.brand tech_cpu)
                                           (CPUInfo.brand title_cpu)]
                       else conflicts);
          stats = (if cpu_hit then stats\<lparr>cpu_conflicts := cpu_conflicts stats + 1\<rparr>
                   else stats)
      in (py_bind (normalize_ram_size (tech_details ''RAM Size'')) (\<lambda>ram_size.
          py_bind (normalize_display_size (tech_details ''Standing screen display size''))
            (\<lambda>display_size.
          py_bind (normalize_battery_life (tech_details ''Average Battery Life (in hours)''))
            (\<lambda>battery_life.
          py_bind (normalize_weight (tech_details ''Item Weight'')) (\<lambda>weight.
          py_bind (normalize_port_count (tech_details ''Number of USB 2.0 Ports''))
            (\<lambda>usb2_ports.
          py_bind (normalize_port_count (tech_details ''Number of USB 3.0 Ports''))
            (\<lambda>usb3_ports.
            Inr ([(''brand'', opt_str (tech_details ''Brand'')),
                  (''model'', opt_str (tech_details ''Item model number'')),
                  (''series'', opt_str (tech_details ''Series'')),
                  (''processor'', final_cpu),
                  (''graphics'', final_gpu),
                  (''memory'', PDict
                     [(''ram_size'', opt_float ram_size),
                      (''technology'', opt_str (tech_details ''Memory Technology'')),
                      (''max_supported'', opt_str (tech_details ''Maximum Memory Supported''))]),
                  (''storage'', PDict
                     [(''size'', opt_str (tech_details ''Hard Drive Size'')),
                      (''type'', opt_str (tech_details ''Hard Disk Description'')),
                      (''interface'', opt_str (tech_details ''Hard Drive Interface''))]),
                  (''display'', PDict
                     [(''size'', opt_float display_size),
                      (''resolution'', opt_str (tech_details ''Screen Resolution''))]),
                  (''operating_system'', opt_str (tech_details ''Operating System'')),
                  (''battery'', PDict
                     [(''life'', opt_float battery_life),
                      (''cells'', opt_str (tech_details ''Number of Lithium Ion Cells'')),
                      (''energy_content'',
                         opt_str (tech_details ''Lithium Battery Energy Content''))]),
                  (''physical'', PDict
                     [(''dimensions'', opt_str (tech_details ''Product Dimensions'')),
                      (''weight'', opt_float weight),
                      (''color'', opt_str (tech_details ''Colour''))]),
                  (''connectivity'', PDict
                     [(''type'', opt_str (tech_details ''Connectivity Type'')),
                      (''usb2_ports'', opt_int usb2_ports),
                      (''usb3_ports'', opt_int usb3_ports)]),
                  (''included_components'', opt_str (tech_details ''Included Components''))]
                 @ (if conflicts \<noteq> []
                    then [(''specification_conflicts'', PList conflicts)] else []))
          )))))), stats))"

section \<open>Notions of the specification\<close>

text \<open>
  A brand conflict in the words of the specification: both sources report a brand and
  the two brand strings differ.
\<close>

definition both_present_and_differ :: "string option \<Rightarrow> string option \<Rightarrow> bool" where
  "both_present_and_differ tech_brand title_brand \<longleftrightarrow>
     tech_brand \<noteq> None \<and> title_brand \<noteq> None \<and> tech_brand \<noteq> title_brand"

section \<open>Facts about the matcher and the classifiers\<close>

text \<open>
  A match carries exactly as many groups as the pattern was given, so the tuple
  unpackings \<open>size, unit = match.groups()\<close> and \<open>prefix, number =
  arc_match.groups()\<close> of the program cannot fail.
\<close>

lemma rmatch_length:
  "(t, h) \<in> set (rmatch ic r s g) \<Longrightarrow> length h = length g"
proof (induction r arbitrary: s g t h)
  case (Seq a b)
  then show ?case by fastforce
next
  case (Grp i a)
  then show ?case by fastforce
qed (auto split: list.splits if_splits)

lemma re_match_length: "re_match ic r n s = Some g \<Longrightarrow> length g = n"
proof -
  assume a: "re_match ic r n s = Some g"
  then obtain t rest where "rmatch ic r s (replicate n None) = (t, g) # rest"
    by (auto simp: re_match_def split: list.splits)
  then have "(t, g) \<in> set (rmatch ic r s (replicate n None))" by simp
  then show ?thesis using rmatch_length by fastforce
qed

lemma re_search_length: "re_search ic r n s = Some g \<Longrightarrow> length g = n"
  by (induction s) (auto split: option.splits dest: re_match_length)

lemma nvidia_gpu_brand: "GPUInfo.brand (nvidia_gpu g t gs) = Some ''NVIDIA''"
  by (simp add: nvidia_gpu_def Let_def)

lemma nvidia_gpu_tag:
  "GPUInfo.source (nvidia_gpu g t gs) = GPUInfo.source g"
  "GPUInfo.confidence (nvidia_gpu g t gs) = GPUInfo.confidence g"
  by (simp_all add: nvidia_gpu_def Let_def)

lemma intel_gpu_brand: "GPUInfo.brand (intel_gpu g t) = Some ''Intel''"
  by (simp add: intel_gpu_def Let_def split: option.splits list.splits)

lemma intel_gpu_tag:
  "GPUInfo.source (intel_gpu g t) = GPUInfo.source g"
  "GPUInfo.confidence (intel_gpu g t) = GPUInfo.confidence g"
  by (simp_all add: intel_gpu_def Let_def split: option.splits list.splits)

lemma amd_gpu_brand: "GPUInfo.brand (amd_gpu g t gs) = Some ''AMD''"
  by (simp add: amd_gpu_def Let_def)

lemma amd_gpu_tag:
  "GPUInfo.source (amd_gpu g t gs) = GPUInfo.source g"
  "GPUInfo.confidence (amd_gpu g t gs) = GPUInfo.confidence g"
  by (simp_all add: amd_gpu_def Let_def)

lemma intel_cpu_brand: "CPUInfo.brand (intel_cpu c gs) = Some ''Intel''"
  by (simp add: intel_cpu_def Let_def)

lemma intel_cpu_tag:
  "CPUInfo.source (intel_cpu c gs) = CPUInfo.source c"
  "CPUInfo.confidence (intel_cpu c gs) = CPUInfo.confidence c"
  by (simp_all add: intel_cpu_def Let_def)

lemma amd_cpu_brand: "CPUInfo.brand (amd_cpu c t gs) = Some ''AMD''"
  by (simp add: amd_cpu_def Let_def split: option.splits list.splits)

lemma amd_cpu_tag:
  "CPUInfo.source (amd_cpu c t gs) = CPUInfo.source c"
  "CPUInfo.confidence (amd_cpu c t gs) = CPUInfo.confidence c"
  by (simp_all add: amd_cpu_def Let_def split: option.splits list.splits)

lemmas branch_simps =
  nvidia_gpu_brand nvidia_gpu_tag intel_gpu_brand intel_gpu_tag amd_gpu_brand amd_gpu_tag
  intel_cpu_brand intel_cpu_tag amd_cpu_brand amd_cpu_tag

lemma parse_gpu_brand_cases:
  "GPUInfo.brand (parse_gpu_from_text t b) \<in> {None, Some ''NVIDIA'', Some ''Intel'', Some ''AMD''}"
  by (simp add: parse_gpu_from_text_def GPUInfo_default_def Let_def branch_simps
      split: option.splits)

lemma parse_cpu_brand_cases:
  "CPUInfo.brand (parse_cpu_from_text t b) \<in> {None, Some ''Intel'', Some ''AMD''}"
  by (simp add: parse_cpu_from_text_def CPUInfo_default_def Let_def branch_simps
      split: option.splits)

lemma truthy_gpu_brand:
  "truthy (GPUInfo.brand (parse_gpu_from_text t b)) \<longleftrightarrow> GPUInfo.brand (parse_gpu_from_text t b) \<noteq> None"
  using parse_gpu_brand_cases[of t b] by auto

lemma truthy_cpu_brand:
  "truthy (CPUInfo.brand (parse_cpu_from_text t b)) \<longleftrightarrow> CPUInfo.brand (parse_cpu_from_text t b) \<noteq> None"
  using parse_cpu_brand_cases[of t b] by auto

lemma try_except_Inr: "\<exists>v. try_except body = Inr v"
  by (cases body) (simp_all add: try_except_def)

lemma normalize_ram_size_Inr: "\<exists>v. normalize_ram_size x = Inr v"
  by (simp add: normalize_ram_size_def try_except_Inr)

lemma normalize_display_size_Inr: "\<exists>v. normalize_display_size x = Inr v"
  by (simp add: normalize_display_size_def try_except_Inr)

lemma normalize_battery_life_Inr: "\<exists>v. normalize_battery_life x = Inr v"
  by (simp add: normalize_battery_life_def try_except_Inr)

lemma normalize_weight_Inr: "\<exists>v. normalize_weight x = Inr v"
  by (simp add: normalize_weight_def try_except_Inr)

lemma normalize_port_count_Inr: "\<exists>v. normalize_port_count x = Inr v"
  by (simp add: normalize_port_count_def try_except_Inr)

text \<open>
  None of the five normalizers raises, so \<open>standardize_specs\<close> always builds its
  dictionary; and \<open>asdict\<close> loses nothing, so two final records are equal exactly
  when the component records they come from are.
\<close>

lemma normalizers_Inr:
  "\<exists>r1 r2 r3 r4 r5 r6.
     normalize_ram_size a = Inr r1 \<and> normalize_display_size b = Inr r2
     \<and> normalize_battery_life c = Inr r3 \<and> normalize_weight d = Inr r4
     \<and> normalize_port_count e = Inr r5 \<and> normalize_port_count f = Inr r6"
  using normalize_ram_size_Inr [of a] normalize_display_size_Inr [of b]
    normalize_battery_life_Inr [of c] normalize_weight_Inr [of d]
    normalize_port_count_Inr [of e] normalize_port_count_Inr [of f]
  by blast

lemma truthy_tech_gpu_brand:
  "truthy (GPUInfo.brand (tech_gpu_of td)) \<longleftrightarrow> GPUInfo.brand (tech_gpu_of td) \<noteq> None"
  by (simp add: tech_gpu_of_def truthy_gpu_brand)

lemma truthy_tech_cpu_brand:
  "truthy (CPUInfo.brand (tech_cpu_of td)) \<longleftrightarrow> CPUInfo.brand (tech_cpu_of td) \<noteq> None"
  by (simp add: tech_cpu_of_def truthy_cpu_brand)

lemma brand_conflict_gpu:
  "brand_conflict (GPUInfo.brand (tech_gpu_of td)) (GPUInfo.brand (parse_gpu_from_text title False))
     = both_present_and_differ (GPUInfo.brand (tech_gpu_of td))
         (GPUInfo.brand (parse_gpu_from_text title False))"
  by (simp add: brand_conflict_def both_present_and_differ_def truthy_tech_gpu_brand
      truthy_gpu_brand)

lemma brand_conflict_cpu:
  "brand_conflict (CPUInfo.brand (tech_cpu_of td)) (CPUInfo.brand (parse_cpu_from_text title False))
     = both_present_and_differ (CPUInfo.brand (tech_cpu_of td))
         (CPUInfo.brand (parse_cpu_from_text title False))"
  by (simp add: brand_conflict_def both_present_and_differ_def truthy_tech_cpu_brand
      truthy_cpu_brand)

lemma opt_str_inject: "opt_str a = opt_str b \<longleftrightarrow> a = b"
  by (cases a; cases b) (simp_all add: opt_str_def)

lemma asdict_gpu_inject: "asdict_gpu a = asdict_gpu b \<longleftrightarrow> a = b"
  by (cases a; cases b) (auto simp: asdict_gpu_def opt_str_inject)

lemma asdict_cpu_inject: "asdict_cpu a = asdict_cpu b \<longleftrightarrow> a = b"
  by (cases a; cases b) (auto simp: asdict_cpu_def opt_str_inject)

section \<open>The classifiers\<close>

text \<open>
  Claim C7. Every record returned by \<open>parse_gpu_from_text\<close> and by
  \<open>parse_cpu_from_text\<close>, on every text (absent, empty or not) and for either
  source tag, has confidence \<open>high\<close> exactly when its source is
  \<open>technical_detail\<close>.
\<close>

theorem classifier_confidence_invariant:
  "(GPUInfo.confidence (parse_gpu_from_text text b) = Some ''high'')
     = (GPUInfo.source (parse_gpu_from_text text b) = Some ''technical_detail'')
   \<and> (CPUInfo.confidence (parse_cpu_from_text text b) = Some ''high'')
     = (CPUInfo.source (parse_cpu_from_text text b) = Some ''technical_detail'')"
  by (simp add: parse_gpu_from_text_def parse_cpu_from_text_def GPUInfo_default_def
      CPUInfo_default_def Let_def branch_simps split: option.splits)

theorem classifier_confidence_invariant_witness:
  "GPUInfo.confidence (parse_gpu_from_text (Some ''GeForce RTX 4070'') True) = Some ''high''
   \<and> GPUInfo.source (parse_gpu_from_text (Some ''GeForce RTX 4070'') True)
       = Some ''technical_detail''"
proof -
  have "GPUInfo.source (parse_gpu_from_text (Some ''GeForce RTX 4070'') True)
          = Some ''technical_detail''"
    by code_simp
  then show ?thesis
    using classifier_confidence_invariant [of "Some ''GeForce RTX 4070''" True] by simp
qed

text \<open>
  Claim C10. Whenever the record returned by \<open>parse_gpu_from_text\<close> or by
  \<open>parse_cpu_from_text\<close> has no brand, its series, model and variant (and, for the
  CPU, its generation) are absent too: the identity fields are only filled in a branch
  that has set the brand.
\<close>

theorem absent_brand_absent_identity:
  "(GPUInfo.brand (parse_gpu_from_text text b) = None \<longrightarrow>
      GPUInfo.series (parse_gpu_from_text text b) = None
      \<and> GPUInfo.model (parse_gpu_from_text text b) = None
      \<and> GPUInfo.variant (parse_gpu_from_text text b) = None)
   \<and> (CPUInfo.brand (parse_cpu_from_text text b) = None \<longrightarrow>
      CPUInfo.series (parse_cpu_from_text text b) = None
      \<and> CPUInfo.generation (parse_cpu_from_text text b) = None
      \<and> CPUInfo.model (parse_cpu_from_text text b) = None
      \<and> CPUInfo.variant (parse_cpu_from_text text b) = None)"
  by (simp add: parse_gpu_from_text_def parse_cpu_from_text_def GPUInfo_default_def
      CPUInfo_default_def Let_def branch_simps split: option.splits)

theorem absent_brand_absent_identity_witness:
  "GPUInfo.brand (parse_gpu_from_text (Some ''Integrated Graphics'') False) = None
   \<and> GPUInfo.series (parse_gpu_from_text (Some ''Integrated Graphics'') False) = None
   \<and> GPUInfo.model (parse_gpu_from_text (Some ''Integrated Graphics'') False) = None
   \<and> GPUInfo.variant (parse_gpu_from_text (Some ''Integrated Graphics'') False) = None
   \<and> CPUInfo.brand (parse_cpu_from_text (Some ''Integrated Graphics'') False) = None
   \<and> CPUInfo.series (parse_cpu_from_text (Some ''Integrated Graphics'') False) = None
   \<and> CPUInfo.generation (parse_cpu_from_text (Some ''Integrated Graphics'') False) = None
   \<and> CPUInfo.model (parse_cpu_from_text (Some ''Integrated Graphics'') False) = None
   \<and> CPUInfo.variant (parse_cpu_from_text (Some ''Integrated Graphics'') False) = None"
proof -
  have g: "GPUInfo.brand (parse_gpu_from_text (Some ''Integrated Graphics'') False) = None"
    by code_simp
  have c: "CPUInfo.brand (parse_cpu_from_text (Some ''Integrated Graphics'') False) = None"
    by code_simp
  show ?thesis
    using absent_brand_absent_identity [of "Some ''Integrated Graphics''" False] g c
    by blast
qed

text \<open>
  Claim C4, as amended. For an absent text and for the empty text, and for either source
  tag, \<open>parse_gpu_from_text\<close> and \<open>parse_cpu_from_text\<close> return the default
  record: brand, series, model, variant (and generation) are absent, and so are source
  and confidence. The guard \<open>if not text: return GPUInfo()\<close> comes before the tag
  is written, so the tag is not recorded. (A text of blanks only is not empty: it passes
  the guard and its record carries the tag.)
\<close>

theorem empty_text_default_record:
  "parse_gpu_from_text None b
     = \<lparr> GPUInfo.brand = None, series = None, model = None, variant = None,
         source = None, confidence = None \<rparr>
   \<and> parse_gpu_from_text (Some []) b
     = \<lparr> GPUInfo.brand = None, series = None, model = None, variant = None,
         source = None, confidence = None \<rparr>
   \<and> parse_cpu_from_text None b
     = \<lparr> CPUInfo.brand = None, series = None, generation = None, model = None,
         variant = None, source = None, confidence = None \<rparr>
   \<and> parse_cpu_from_text (Some []) b
     = \<lparr> CPUInfo.brand = None, series = None, generation = None, model = None,
         variant = None, source = None, confidence = None \<rparr>"
  by (simp add: parse_gpu_from_text_def parse_cpu_from_text_def GPUInfo_default_def
      CPUInfo_default_def)

text \<open>
  The claim as it was stated fails: on the empty text with the technical-detail tag the
  record has no source and no confidence.
\<close>

theorem empty_text_tag_counterexample:
  "\<not> (GPUInfo.source (parse_gpu_from_text (Some []) True) = Some ''technical_detail''
      \<and> GPUInfo.confidence (parse_gpu_from_text (Some []) True) = Some ''high'')"
  by (simp add: parse_gpu_from_text_def GPUInfo_default_def)

text \<open>
  Claim C3, evaluated. On \<open>RTX 3060 RX 6600\<close> the first NVIDIA pattern fails and the
  second matches with the groups \<open>rtx\<close>, none, \<open>30\<close>, \<open>60\<close>, none, so the
  brand is NVIDIA and no other brand is tried. The series number is \<open>30\<close>; the
  search for the two-digit token runs over the same groups from the left and stops at
  \<open>30\<close> as well, so the model is \<open>3030\<close> and not \<open>3060\<close>.
\<close>

theorem gpu_rtx_3060_rx_6600:
  "first_match nvidia_patterns ''rtx 3060 rx 6600''
     = Some [Some ''rtx'', None, Some ''30'', Some ''60'', None]
   \<and> GPUInfo.brand (parse_gpu_from_text (Some ''RTX 3060 RX 6600'') False) = Some ''NVIDIA''
   \<and> GPUInfo.series (parse_gpu_from_text (Some ''RTX 3060 RX 6600'') False) = Some ''RTX''
   \<and> GPUInfo.model (parse_gpu_from_text (Some ''RTX 3060 RX 6600'') False) = Some ''3030''"
  by code_simp

text \<open>
  Claim C5, evaluated. On \<open>Intel Core i7-12700H\<close> the first Intel pattern matches
  with the groups \<open>intel\<close>, \<open>core\<close>, \<open>i7\<close>, \<open>12\<close>, \<open>700\<close>, none: the
  final \<open>h\<close> is taken by the class \<open>[HKF]?\<close>, which ignores case, and the
  variant group stays empty. The series is \<open>I7\<close> and the generation
  \<open>12th Gen\<close>, but the variant is absent and not \<open>H\<close>.
\<close>

theorem cpu_intel_core_i7_12700h:
  "first_match intel_cpu_patterns ''intel core i7-12700h''
     = Some [Some ''intel'', Some ''core'', Some ''i7'', Some ''12'', Some ''700'', None]
   \<and> CPUInfo.series (parse_cpu_from_text (Some ''Intel Core i7-12700H'') False) = Some ''I7''
   \<and> CPUInfo.generation (parse_cpu_from_text (Some ''Intel Core i7-12700H'') False)
       = Some ''12th Gen''
   \<and> CPUInfo.variant (parse_cpu_from_text (Some ''Intel Core i7-12700H'') False) = None"
  by code_simp

section \<open>The assembler\<close>

text \<open>
  Claim C1. For every technical-detail map and title, \<open>standardize_specs\<close> returns
  a dictionary whose \<open>graphics\<close> entry is the whole record classified from the
  technical details when that record has a brand, and the whole record classified from
  the title otherwise; likewise for \<open>processor\<close>. The entry is
  \<open>asdict\<close> of the winning record, all of its fields (series, model, variant,
  generation, source, confidence) together; nothing is taken from the losing record.
\<close>

theorem final_component_precedence:
  "\<exists>specs. fst (standardize_specs td title st) = Inr specs
     \<and> map_of specs ''graphics''
         = Some (asdict_gpu (if GPUInfo.brand (tech_gpu_of td) \<noteq> None then tech_gpu_of td
                             else parse_gpu_from_text title False))
     \<and> map_of specs ''processor''
         = Some (asdict_cpu (if CPUInfo.brand (tech_cpu_of td) \<noteq> None then tech_cpu_of td
                             else parse_cpu_from_text title False))"
proof -
  obtain r1 r2 r3 r4 r5 r6 where
    "normalize_ram_size (td ''RAM Size'') = Inr r1"
    "normalize_display_size (td ''Standing screen display size'') = Inr r2"
    "normalize_battery_life (td ''Average Battery Life (in hours)'') = Inr r3"
    "normalize_weight (td ''Item Weight'') = Inr r4"
    "normalize_port_count (td ''Number of USB 2.0 Ports'') = Inr r5"
    "normalize_port_count (td ''Number of USB 3.0 Ports'') = Inr r6"
    using normalizers_Inr by blast
  then show ?thesis
    by (simp add: standardize_specs_def Let_def py_bind_def truthy_tech_gpu_brand
        truthy_tech_cpu_brand)
qed

text \<open>
  The scenario of the specification: technical details \<open>AMD Radeon RX 6600\<close>, title
  \<open>Intel Iris Xe Graphics\<close>. The technical record wins as a whole.
\<close>

theorem final_component_precedence_witness:
  "\<exists>specs. fst (standardize_specs
                    [''Graphics Card Description'' \<mapsto> ''AMD Radeon RX 6600'']
                    (Some ''Intel Iris Xe Graphics'') ProcessingStats_default) = Inr specs
     \<and> map_of specs ''graphics''
         = Some (PDict [(''brand'', PStr ''AMD''), (''series'', PStr ''RX''),
                        (''model'', PStr ''6600''), (''variant'', PNone),
                        (''source'', PStr ''technical_detail''),
                        (''confidence'', PStr ''high'')])"
proof -
  have g: "tech_gpu_of [''Graphics Card Description'' \<mapsto> ''AMD Radeon RX 6600'']
             = \<lparr> GPUInfo.brand = Some ''AMD'', series = Some ''RX'', model = Some ''6600'',
                 variant = None, source = Some ''technical_detail'',
                 confidence = Some ''high'' \<rparr>"
    by code_simp
  show ?thesis
    using final_component_precedence
      [of "[''Graphics Card Description'' \<mapsto> ''AMD Radeon RX 6600'']"
          "Some ''Intel Iris Xe Graphics''" ProcessingStats_default]
    unfolding g by (auto simp: asdict_gpu_def opt_str_def)
qed

text \<open>
  Claim C2. For each component, a conflict record (component, field \<open>brand\<close>, the
  two brands, the resolution text) is appended to the conflict list and the component's
  counter goes up by exactly 1 if and only if both classifications have a brand and the
  two brand strings differ; otherwise nothing is appended and the counter keeps its
  value. The test reads the brands only, so a difference in series, model or variant
  alone gives no conflict. When the technical-detail brand is absent there is no
  conflict for that component and the title's record is the final one.
\<close>

theorem conflict_iff_brand_mismatch:
  "\<exists>specs. fst (standardize_specs td title st) = Inr specs
     \<and> map_of specs ''specification_conflicts''
         = (let gpu_hit = both_present_and_differ (GPUInfo.brand (tech_gpu_of td))
                            (GPUInfo.brand (parse_gpu_from_text title False));
                cpu_hit = both_present_and_differ (CPUInfo.brand (tech_cpu_of td))
                            (CPUInfo.brand (parse_cpu_from_text title False));
                conflicts =
                  (if gpu_hit
                   then [conflict_record ''GPU'' (GPUInfo.brand (tech_gpu_of td))
                           (GPUInfo.brand (parse_gpu_from_text title False))]
                   else [])
                  @ (if cpu_hit
                     then [conflict_record ''CPU'' (CPUInfo.brand (tech_cpu_of td))
                             (CPUInfo.brand (parse_cpu_from_text title False))]
                     else [])
            in if conflicts = [] then None else Some (PList conflicts))
     \<and> snd (standardize_specs td title st)
         = st\<lparr> gpu_conflicts := gpu_conflicts st
                  + (if both_present_and_differ (GPUInfo.brand (tech_gpu_of td))
                          (GPUInfo.brand (parse_gpu_from_text title False)) then 1 else 0),
               cpu_conflicts := cpu_conflicts st
                  + (if both_present_and_differ (CPUInfo.brand (tech_cpu_of td))
                          (CPUInfo.brand (parse_cpu_from_text title False)) then 1 else 0) \<rparr>
     \<and> map_of specs ''graphics''
         = Some (asdict_gpu (if GPUInfo.brand (tech_gpu_of td) = None
                             then parse_gpu_from_text title False else tech_gpu_of td))
     \<and> map_of specs ''processor''
         = Some (asdict_cpu (if CPUInfo.brand (tech_cpu_of td) = None
                             then parse_cpu_from_text title False else tech_cpu_of td))"
proof -
  obtain r1 r2 r3 r4 r5 r6 where
    "normalize_ram_size (td ''RAM Size'') = Inr r1"
    "normalize_display_size (td ''Standing screen display size'') = Inr r2"
    "normalize_battery_life (td ''Average Battery Life (in hours)'') = Inr r3"
    "normalize_weight (td ''Item Weight'') = Inr r4"
    "normalize_port_count (td ''Number of USB 2.0 Ports'') = Inr r5"
    "normalize_port_count (td ''Number of USB 3.0 Ports'') = Inr r6"
    using normalizers_Inr by blast
  then show ?thesis
    by (simp add: standardize_specs_def Let_def py_bind_def truthy_tech_gpu_brand
        truthy_tech_cpu_brand brand_conflict_gpu brand_conflict_cpu)
qed

theorem conflict_iff_brand_mismatch_witness:
  "\<exists>specs. fst (standardize_specs
                    [''Graphics Card Description'' \<mapsto> ''AMD Radeon RX 6600'']
                    (Some ''Intel Iris Xe Graphics'') ProcessingStats_default) = Inr specs
     \<and> map_of specs ''specification_conflicts''
         = Some (PList [PDict [(''component'', PStr ''GPU''), (''field'', PStr ''brand''),
                               (''tech_value'', PStr ''AMD''), (''title_value'', PStr ''Intel''),
                               (''resolution'', PStr ''Used technical detail value: AMD'')]])
     \<and> gpu_conflicts (snd (standardize_specs
                    [''Graphics Card Description'' \<mapsto> ''AMD Radeon RX 6600'']
                    (Some ''Intel Iris Xe Graphics'') ProcessingStats_default)) = 1
     \<and> cpu_conflicts (snd (standardize_specs
                    [''Graphics Card Description'' \<mapsto> ''AMD Radeon RX 6600'']
                    (Some ''Intel Iris Xe Graphics'') ProcessingStats_default)) = 0"
proof -
  have a: "GPUInfo.brand (tech_gpu_of [''Graphics Card Description'' \<mapsto> ''AMD Radeon RX 6600''])
             = Some ''AMD''"
    by code_simp
  have b: "GPUInfo.brand (parse_gpu_from_text (Some ''Intel Iris Xe Graphics'') False)
             = Some ''Intel''"
    by code_simp
  have c: "CPUInfo.brand (tech_cpu_of [''Graphics Card Description'' \<mapsto> ''AMD Radeon RX 6600''])
             = None"
    by code_simp
  show ?thesis
    using conflict_iff_brand_mismatch
      [of "[''Graphics Card Description'' \<mapsto> ''AMD Radeon RX 6600'']"
          "Some ''Intel Iris Xe Graphics''" ProcessingStats_default]
    unfolding a b c
    by (auto simp: both_present_and_differ_def conflict_record_def opt_str_def Let_def
        ProcessingStats_default_def)
qed

text \<open>
  Claim C9. The dictionary returned by \<open>standardize_specs\<close> has the key
  \<open>specification_conflicts\<close> if and only if a brand conflict was found for the
  GPU or for the CPU of the document. When the key is there its value is a list that is
  not empty; when there was no conflict the key is not there at all.
\<close>

theorem conflicts_key_iff_conflict:
  "\<exists>specs. fst (standardize_specs td title st) = Inr specs
     \<and> (''specification_conflicts'' \<in> fst ` set specs)
         = (both_present_and_differ (GPUInfo.brand (tech_gpu_of td))
              (GPUInfo.brand (parse_gpu_from_text title False))
            \<or> both_present_and_differ (CPUInfo.brand (tech_cpu_of td))
                (CPUInfo.brand (parse_cpu_from_text title False)))
     \<and> map_of specs ''specification_conflicts'' \<noteq> Some (PList [])
     \<and> (\<exists>cs. map_of specs ''specification_conflicts''
                = (if ''specification_conflicts'' \<in> fst ` set specs then Some (PList cs)
                   else None))"
proof -
  obtain r1 r2 r3 r4 r5 r6 where
    "normalize_ram_size (td ''RAM Size'') = Inr r1"
    "normalize_display_size (td ''Standing screen display size'') = Inr r2"
    "normalize_battery_life (td ''Average Battery Life (in hours)'') = Inr r3"
    "normalize_weight (td ''Item Weight'') = Inr r4"
    "normalize_port_count (td ''Number of USB 2.0 Ports'') = Inr r5"
    "normalize_port_count (td ''Number of USB 3.0 Ports'') = Inr r6"
    using normalizers_Inr by blast
  then show ?thesis
    by (simp add: standardize_specs_def Let_def py_bind_def truthy_tech_gpu_brand
        truthy_tech_cpu_brand brand_conflict_gpu brand_conflict_cpu)
qed

theorem conflicts_key_iff_conflict_witness:
  "\<exists>specs. fst (standardize_specs [''Graphics Card Description'' \<mapsto> ''NVIDIA GeForce RTX 4070'']
                    (Some ''ASUS ROG Strix RTX 4070 Laptop'') ProcessingStats_default) = Inr specs
     \<and> ''specification_conflicts'' \<notin> fst ` set specs
     \<and> map_of specs ''specification_conflicts'' = None"
proof -
  have a: "GPUInfo.brand
             (tech_gpu_of [''Graphics Card Description'' \<mapsto> ''NVIDIA GeForce RTX 4070''])
             = Some ''NVIDIA''"
    by code_simp
  have b: "GPUInfo.brand (parse_gpu_from_text (Some ''ASUS ROG Strix RTX 4070 Laptop'') False)
             = Some ''NVIDIA''"
    by code_simp
  have c: "CPUInfo.brand
             (tech_cpu_of [''Graphics Card Description'' \<mapsto> ''NVIDIA GeForce RTX 4070''])
             = None"
    by code_simp
  show ?thesis
    using conflicts_key_iff_conflict
      [of "[''Graphics Card Description'' \<mapsto> ''NVIDIA GeForce RTX 4070'']"
          "Some ''ASUS ROG Strix RTX 4070 Laptop''" ProcessingStats_default]
    unfolding a b c
    by (auto simp: both_present_and_differ_def)
qed

section \<open>The unit normalizers\<close>

text \<open>
  What the normalizers return, given the outcome of the search: the absent value when
  nothing matches, and the converted number when the pattern matched and the captured
  number was read.
\<close>

lemma normalize_ram_size_no_match:
  "re_search True ram_size_pattern 2 s = None \<Longrightarrow> normalize_ram_size (Some s) = Inr None"
  by (simp add: normalize_ram_size_def try_except_def)

lemma normalize_ram_size_match:
  assumes "s \<noteq> []" "re_search True ram_size_pattern 2 s = Some [sz, unit]"
    and "py_float sz = Inr v"
  shows "normalize_ram_size (Some s)
           = Inr (Some (if truthy unit \<and> py_upper (py_str unit) = ''MB'' then v / 1024
                        else if truthy unit \<and> py_upper (py_str unit) = ''TB'' then v * 1024
                        else v))"
  using assms by (simp add: normalize_ram_size_def try_except_def py_bind_def Let_def)

lemmas number_simps = py_float_def py_int_def nat_of_digits_def digit_val_def py_isdigit_def

text \<open>A text without a digit matches nowhere: the pattern starts with \<open>\d+\<close>.\<close>

lemma run_no_digit: "s = [] \<or> \<not> py_isdigit (hd s) \<Longrightarrow> run ic Digit hi s = 0"
  by (cases s) auto

lemma decimal_no_digit:
  "s = [] \<or> \<not> py_isdigit (hd s) \<Longrightarrow> rmatch ic (Grp i decimal) s g = []"
  by (simp add: run_no_digit)

lemma seqs_no_match:
  "rmatch ic a s g = [] \<Longrightarrow> rmatch ic (seqs (a # b # rs)) s g = []"
  by simp

lemma decimal_pattern_no_match:
  assumes "s = [] \<or> \<not> py_isdigit (hd s)"
  shows "re_match ic (seqs (Grp i decimal # b # rs)) n s = None"
proof -
  have "rmatch ic (seqs (Grp i decimal # b # rs)) s (replicate n None) = []"
    by (rule seqs_no_match) (rule decimal_no_digit [OF assms])
  then show ?thesis by (simp only: re_match_def list.case)
qed

lemma re_search_no_digit:
  assumes "\<And>t. t = [] \<or> \<not> py_isdigit (hd t) \<Longrightarrow> re_match ic r n t = None"
  shows "\<forall>c \<in> set s. \<not> py_isdigit c \<Longrightarrow> re_search ic r n s = None"
  by (induction s) (simp_all add: assms)

lemma ram_size_no_match:
  "\<forall>c \<in> set s. \<not> py_isdigit c \<Longrightarrow> re_search True ram_size_pattern 2 s = None"
  unfolding ram_size_pattern_def
  by (erule re_search_no_digit [rotated]) (rule decimal_pattern_no_match)

lemma display_size_no_match:
  "\<forall>c \<in> set s. \<not> py_isdigit c \<Longrightarrow> re_search True display_size_pattern 1 s = None"
  unfolding display_size_pattern_def
  by (erule re_search_no_digit [rotated]) (rule decimal_pattern_no_match)

lemma battery_life_no_match:
  "\<forall>c \<in> set s. \<not> py_isdigit c \<Longrightarrow> re_search True battery_life_pattern 1 s = None"
  unfolding battery_life_pattern_def
  by (erule re_search_no_digit [rotated]) (rule decimal_pattern_no_match)

lemma weight_no_match:
  "\<forall>c \<in> set s. \<not> py_isdigit c \<Longrightarrow> re_search True weight_pattern 2 s = None"
  unfolding weight_pattern_def
  by (erule re_search_no_digit [rotated]) (rule decimal_pattern_no_match)

lemma port_count_no_match_here:
  assumes "s = [] \<or> \<not> py_isdigit (hd s)"
  shows "re_match False port_count_pattern 1 s = None"
proof -
  have "rmatch False port_count_pattern s (replicate 1 None) = []"
    unfolding port_count_pattern_def using assms by (simp add: run_no_digit)
  then show ?thesis by (simp only: re_match_def list.case)
qed

lemma port_count_no_match:
  "\<forall>c \<in> set s. \<not> py_isdigit c \<Longrightarrow> re_search False port_count_pattern 1 s = None"
  by (erule re_search_no_digit [rotated]) (rule port_count_no_match_here)

lemma normalize_no_digit:
  assumes "\<forall>c \<in> set s. \<not> py_isdigit c"
  shows "normalize_ram_size (Some s) = Inr None"
    and "normalize_display_size (Some s) = Inr None"
    and "normalize_battery_life (Some s) = Inr None"
    and "normalize_weight (Some s) = Inr None"
    and "normalize_port_count (Some s) = Inr None"
  using ram_size_no_match [OF assms] display_size_no_match [OF assms]
    battery_life_no_match [OF assms] weight_no_match [OF assms]
    port_count_no_match [OF assms]
  by (simp_all add: normalize_ram_size_def normalize_display_size_def
      normalize_battery_life_def normalize_weight_def normalize_port_count_def
      try_except_def)

text \<open>
  Claim C6. \<open>normalize_ram_size\<close> converts the first numeric match to gigabytes:
  \<open>16 GB\<close> gives 16, \<open>16384 MB\<close> gives 16 (megabytes are divided by 1024),
  \<open>1 TB\<close> gives 1024 (terabytes are multiplied by 1024), a number without a unit is
  returned as it is, the first number of the text is the one converted, and a text
  without any digit gives the absent value.
\<close>

theorem normalize_ram_size_gigabytes:
  "normalize_ram_size (Some ''16 GB'') = Inr (Some 16)
   \<and> normalize_ram_size (Some ''16384 MB'') = Inr (Some 16)
   \<and> normalize_ram_size (Some ''1 TB'') = Inr (Some 1024)
   \<and> normalize_ram_size (Some ''8'') = Inr (Some 8)
   \<and> normalize_ram_size (Some ''up to 4.5gb, 3 mb cache'') = Inr (Some (9 / 2))
   \<and> (\<forall>s sz unit v.
         s \<noteq> [] \<and> re_search True ram_size_pattern 2 s = Some [sz, unit]
         \<and> py_float sz = Inr v \<longrightarrow>
         normalize_ram_size (Some s)
           = Inr (Some (if truthy unit \<and> py_upper (py_str unit) = ''MB'' then v / 1024
                        else if truthy unit \<and> py_upper (py_str unit) = ''TB'' then v * 1024
                        else v)))
   \<and> (\<forall>s. (\<forall>c \<in> set s. \<not> py_isdigit c) \<longrightarrow> normalize_ram_size (Some s) = Inr None)"
proof -
  have up: "py_upper ''GB'' = ''GB''" "py_upper ''MB'' = ''MB''" "py_upper ''TB'' = ''TB''"
    "py_upper ''gb'' = ''GB''"
    by code_simp+
  have m0: "re_search True ram_size_pattern 2 ''16 GB'' = Some [Some ''16'', Some ''GB'']"
    by code_simp
  have p0: "py_float (Some ''16'') = Inr 16" by (simp add: number_simps)
  have a: "normalize_ram_size (Some ''16 GB'') = Inr (Some 16)"
    using normalize_ram_size_match [OF _ m0 p0] by (simp add: up)
  have m1: "re_search True ram_size_pattern 2 ''16384 MB'' = Some [Some ''16384'', Some ''MB'']"
    by code_simp
  have p1: "py_float (Some ''16384'') = Inr 16384" by (simp add: number_simps)
  have b: "normalize_ram_size (Some ''16384 MB'') = Inr (Some 16)"
    using normalize_ram_size_match [OF _ m1 p1] by (simp add: up)
  have m2: "re_search True ram_size_pattern 2 ''1 TB'' = Some [Some ''1'', Some ''TB'']"
    by code_simp
  have p2: "py_float (Some ''1'') = Inr 1" by (simp add: number_simps)
  have c: "normalize_ram_size (Some ''1 TB'') = Inr (Some 1024)"
    using normalize_ram_size_match [OF _ m2 p2] by (simp add: up)
  have m3: "re_search True ram_size_pattern 2 ''8'' = Some [Some ''8'', None]"
    by code_simp
  have p3: "py_float (Some ''8'') = Inr 8" by (simp add: number_simps)
  have d: "normalize_ram_size (Some ''8'') = Inr (Some 8)"
    using normalize_ram_size_match [OF _ m3 p3] by (simp add: up)
  have m4: "re_search True ram_size_pattern 2 ''up to 4.5gb, 3 mb cache''
          = Some [Some ''4.5'', Some ''gb'']"
    by code_simp
  have p4: "py_float (Some ''4.5'') = Inr (9 / 2)" by (simp add: number_simps)
  have e:
    "normalize_ram_size (Some ''up to 4.5gb, 3 mb cache'') = Inr (Some (9 / 2))"
    using normalize_ram_size_match [OF _ m4 p4] by (simp add: up)
  have f: "normalize_ram_size (Some s) = Inr None" if "\<forall>c \<in> set s. \<not> py_isdigit c" for s
    using that by (rule normalize_no_digit)
  have g: "normalize_ram_size (Some s)
             = Inr (Some (if truthy unit \<and> py_upper (py_str unit) = ''MB'' then v / 1024
                          else if truthy unit \<and> py_upper (py_str unit) = ''TB''
                          then v * 1024 else v))"
    if "s \<noteq> [] \<and> re_search True ram_size_pattern 2 s = Some [sz, unit]
        \<and> py_float sz = Inr v" for s sz unit v
  proof -
    from that have "s \<noteq> []" "re_search True ram_size_pattern 2 s = Some [sz, unit]"
      "py_float sz = Inr v"
      by blast+
    then show ?thesis by (rule normalize_ram_size_match)
  qed
  from a b c d e show ?thesis using f g by blast
qed

theorem normalize_ram_size_gigabytes_witness:
  "normalize_ram_size (Some ''sixteen gigabytes'') = Inr None
   \<and> normalize_ram_size (Some ''512 mb'') = Inr (Some (1 / 2))
   \<and> normalize_ram_size (Some ''2tb ssd'') = Inr (Some 2048)
   \<and> normalize_ram_size (Some ''ddr4 3200'') = Inr (Some 4)"
proof -
  have n: "\<forall>c \<in> set ''sixteen gigabytes''. \<not> py_isdigit c"
    by (simp add: py_isdigit_def)
  have up: "py_upper ''mb'' = ''MB''" "py_upper ''tb'' = ''TB''"
    by code_simp+
  have m1: "re_search True ram_size_pattern 2 ''512 mb'' = Some [Some ''512'', Some ''mb'']"
    by code_simp
  have p1: "py_float (Some ''512'') = Inr 512" by (simp add: number_simps)
  have m2: "re_search True ram_size_pattern 2 ''2tb ssd'' = Some [Some ''2'', Some ''tb'']"
    by code_simp
  have p2: "py_float (Some ''2'') = Inr 2" by (simp add: number_simps)
  have m3: "re_search True ram_size_pattern 2 ''ddr4 3200'' = Some [Some ''4'', None]"
    by code_simp
  have p3: "py_float (Some ''4'') = Inr 4" by (simp add: number_simps)
  note r = normalize_ram_size_gigabytes [THEN conjunct2, THEN conjunct2, THEN conjunct2,
      THEN conjunct2, THEN conjunct2]
  note gen = r [THEN conjunct1, rule_format] and nod = r [THEN conjunct2, THEN spec]
  have a: "normalize_ram_size (Some ''sixteen gigabytes'') = Inr None"
    using nod [of "''sixteen gigabytes''"] n by blast
  have b: "normalize_ram_size (Some ''512 mb'') = Inr (Some (1 / 2))"
    using gen [of "''512 mb''" "Some ''512''" "Some ''mb''" 512] m1 p1 by (simp add: up)
  have c: "normalize_ram_size (Some ''2tb ssd'') = Inr (Some 2048)"
    using gen [of "''2tb ssd''" "Some ''2''" "Some ''tb''" 2] m2 p2 by (simp add: up)
  have d: "normalize_ram_size (Some ''ddr4 3200'') = Inr (Some 4)"
    using gen [of "''ddr4 3200''" "Some ''4''" None 4] m3 p3 by simp
  from a b c d show ?thesis by simp
qed

text \<open>
  Claim C8. Each of the five unit normalizers returns a value on every input, an optional
  number and never an exception. On the absent input and on the empty text the result is
  the absent value, by the guard that precedes the search. A text without any digit,
  where no pattern can match, gives the absent value as well.
\<close>

theorem normalizers_total:
  "(\<exists>v. normalize_ram_size x = Inr v)
   \<and> (\<exists>v. normalize_display_size x = Inr v)
   \<and> (\<exists>v. normalize_battery_life x = Inr v)
   \<and> (\<exists>v. normalize_weight x = Inr v)
   \<and> (\<exists>v. normalize_port_count x = Inr v)
   \<and> normalize_ram_size None = Inr None \<and> normalize_ram_size (Some []) = Inr None
   \<and> normalize_display_size None = Inr None \<and> normalize_display_size (Some []) = Inr None
   \<and> normalize_battery_life None = Inr None \<and> normalize_battery_life (Some []) = Inr None
   \<and> normalize_weight None = Inr None \<and> normalize_weight (Some []) = Inr None
   \<and> normalize_port_count None = Inr None \<and> normalize_port_count (Some []) = Inr None
   \<and> ((\<forall>c \<in> set s. \<not> py_isdigit c) \<longrightarrow>
        normalize_ram_size (Some s) = Inr None
        \<and> normalize_display_size (Some s) = Inr None
        \<and> normalize_battery_life (Some s) = Inr None
        \<and> normalize_weight (Some s) = Inr None
        \<and> normalize_port_count (Some s) = Inr None)"
proof -
  have guards:
    "normalize_ram_size None = Inr None" "normalize_ram_size (Some []) = Inr None"
    "normalize_display_size None = Inr None" "normalize_display_size (Some []) = Inr None"
    "normalize_battery_life None = Inr None" "normalize_battery_life (Some []) = Inr None"
    "normalize_weight None = Inr None" "normalize_weight (Some []) = Inr None"
    "normalize_port_count None = Inr None" "normalize_port_count (Some []) = Inr None"
    by (simp_all add: normalize_ram_size_def normalize_display_size_def
        normalize_battery_life_def normalize_weight_def normalize_port_count_def)
  have total:
    "\<exists>v. normalize_ram_size x = Inr v" "\<exists>v. normalize_display_size x = Inr v"
    "\<exists>v. normalize_battery_life x = Inr v" "\<exists>v. normalize_weight x = Inr v"
    "\<exists>v. normalize_port_count x = Inr v"
    by (rule normalize_ram_size_Inr normalize_display_size_Inr normalize_battery_life_Inr
        normalize_weight_Inr normalize_port_count_Inr)+
  show ?thesis
    using guards total normalize_no_digit [of s] by blast
qed

theorem normalizers_total_witness:
  "normalize_ram_size (Some ''n/a'') = Inr None
   \<and> normalize_display_size (Some ''n/a'') = Inr None
   \<and> normalize_battery_life (Some ''n/a'') = Inr None
   \<and> normalize_weight (Some ''n/a'') = Inr None
   \<and> normalize_port_count (Some ''n/a'') = Inr None"
proof -
  have "\<forall>c \<in> set ''n/a''. \<not> py_isdigit c"
    by (simp add: py_isdigit_def)
  then show ?thesis
    using normalizers_total [of "Some ''n/a''" "''n/a''"] by blast
qed
end
